theory Spec2Isabelle
  imports Main "HOL-Library.Word" "HOL-Library.Multiset"
begin

section \<open>The configuration-application engine (hub/executor/executor.go)\<close>

text \<open>
  The executor pushes a parsed configuration into the process-wide state of the
  other packages. Those packages are outside this file; what the executor does
  to them is a sequence of calls and of stores into their exported variables.
  The model keeps both: every call into another package is appended to a trace
  (\<open>calls\<close>), and the exported variables the executor writes are fields of the
  record \<open>world\<close>.
\<close>

subsection \<open>Configuration data (package config, as far as the executor reads it)\<close>

record Tun =
  Tun_Enable :: bool
  RedirectToTun :: "string list"

record General =
  Port :: int
  SocksPort :: int
  RedirPort :: int
  TProxyPort :: int
  MixedPort :: int
  Tun :: Tun
  TuicServer :: string
  ShadowSocksConfig :: string
  VmessConfig :: string
  SkipAuthPrefixes :: "string list"
  AllowLan :: bool
  BindAddress :: string
  EBpf_AutoRedir :: "string list"
  Mode :: string
  FindProcessMode :: string
  LogLevel :: string
  IPv6 :: bool
  GeodataLoader :: string
  Interface :: string
  RoutingMark :: int
  TCPConcurrent :: bool
  InboundTfo :: bool
  InboundMPTCP :: bool
  UnifiedDelay :: bool

record FallbackFilter =
  GeoIP :: bool
  GeoIPCode :: string
  IPCIDR :: "string list"
  Domain :: "string list"
  GeoSite :: "string list"

record DNS =
  DNS_Enable :: bool
  NameServer :: "string list"
  Fallback :: "string list"
  DNS_IPv6 :: bool
  IPv6Timeout :: nat
  EnhancedMode :: string
  FakeIPRange :: string
  Hosts :: string
  FallbackFilter :: FallbackFilter
  DefaultNameserver :: "string list"
  NameServerPolicy :: "(string \<times> string) list"
  ProxyServerNameserver :: "string list"
  CacheAlgorithm :: string
  Listen :: string

record IPTables =
  IPTables_Enable :: bool
  InboundInterface :: string
  Bypass :: "string list"

record Profile =
  StoreSelected :: bool

subsection \<open>Providers (package constant/provider)\<close>

text \<open>
  The executor uses four methods of a provider: \<open>Name()\<close>, \<open>Type()\<close>,
  \<open>VehicleType()\<close> and \<open>Initial()\<close>. The last one fetches and parses the
  provider's source; the field \<open>Initial\<close> is the error it returns, \<open>None\<close>
  for \<open>nil\<close>. Of the vehicle types only \<open>Compatible\<close> is named in this file.
\<close>

datatype ProviderType = Proxy | Rule

datatype VehicleType = File | HTTP | Compatible

record Provider =
  Name :: string
  Type :: ProviderType
  VehicleType :: VehicleType
  Initial :: "string option"

subsection \<open>Proxies (packages adapter and adapter/outboundgroup)\<close>

text \<open>
  A value of the interface \<open>C.Proxy\<close> is an \<open>*adapter.Proxy\<close> or something
  else; the \<open>ProxyAdapter\<close> inside an \<open>*adapter.Proxy\<close> implements
  \<open>outboundgroup.SelectAble\<close> or does not. Both type assertions of
  \<open>patchSelectGroup\<close> are of the comma-ok form, so neither can panic.
\<close>

record SelectAble =
  active :: string

datatype ProxyAdapter = SelectAble_adapter SelectAble | plain_adapter

datatype Proxy = adapter_Proxy ProxyAdapter | foreign_Proxy

text \<open>
  Modelled from the spec: \<open>ForceSet\<close> of \<open>outboundgroup.SelectAble\<close> is not in
  the sources at hand; re-applying a remembered selection makes it the group's
  active selection.
\<close>

definition ForceSet :: "string \<Rightarrow> SelectAble \<Rightarrow> SelectAble" where
  "ForceSet name g = g\<lparr>active := name\<rparr>"

subsection \<open>The DNS objects (package dns)\<close>

record dns_FallbackFilter =
  ff_GeoIP :: bool
  ff_GeoIPCode :: string
  ff_IPCIDR :: "string list"
  ff_Domain :: "string list"
  ff_GeoSite :: "string list"

record dns_Config =
  cfg_Main :: "string list"
  cfg_Fallback :: "string list"
  cfg_IPv6 :: bool
  cfg_IPv6Timeout :: nat
  cfg_EnhancedMode :: string
  cfg_Pool :: string
  cfg_Hosts :: string
  cfg_FallbackFilter :: dns_FallbackFilter
  cfg_Default :: "string list"
  cfg_Policy :: "(string \<times> string) list"
  cfg_ProxyServer :: "string list"
  cfg_RuleProviders :: "(string \<times> Provider) list"
  cfg_CacheAlgorithm :: string

text \<open>
  The constructors \<open>dns.NewResolver\<close>, \<open>dns.NewProxyServerHostResolver\<close> and
  \<open>dns.NewLocalServer\<close> are not in the sources at hand. A resolver and a local
  server are represented by the constructor call that built them.
\<close>

datatype Resolver = NewResolver dns_Config | NewProxyServerHostResolver Resolver

text \<open>
  Modelled from the spec: the enhancer (\<open>dns.ResolverEnhancer\<close>) and its methods
  are not in the sources at hand. It carries the accumulated mapping cache; a
  new enhancer is built from the configuration with nothing cached, and
  \<open>PatchFrom\<close> copies the mapping cache of the old enhancer into the receiver.
  The cache grows between two applies while the enhancer serves requests, so the
  value found in the host-mapper slot is the enhancer with what it has
  accumulated.
\<close>

record ResolverEnhancer =
  enh_Config :: dns_Config
  cache :: "string \<rightharpoonup> string"

definition NewEnhancer :: "dns_Config \<Rightarrow> ResolverEnhancer" where
  "NewEnhancer cfg = \<lparr>enh_Config = cfg, cache = Map.empty\<rparr>"

definition PatchFrom :: "ResolverEnhancer \<Rightarrow> ResolverEnhancer \<Rightarrow> ResolverEnhancer" where
  "PatchFrom h old = h\<lparr>cache := cache h ++ cache old\<rparr>"

text \<open>
  The host-mapper slot has the interface type \<open>resolver.Enhancer\<close>: it holds a
  \<open>*dns.ResolverEnhancer\<close> or a value of another implementation.
\<close>

datatype Enhancer = dns_ResolverEnhancer ResolverEnhancer | foreign_Enhancer

datatype LocalServer = NewLocalServer Resolver ResolverEnhancer

record AddrPort =
  Addr :: string
  AddrPort_Port :: "16 word"

record Config =
  General :: General
  DNS :: DNS
  IPTables :: IPTables
  Profile :: Profile
  Proxies :: "(string \<times> Proxy) list"
  Providers :: "(string \<times> Provider) list"
  RuleProviders :: "(string \<times> Provider) list"

subsection \<open>The process-wide state\<close>

text \<open>Arguments of a log line: the format string is kept apart from its operands.\<close>

datatype arg = S string | I int

text \<open>
  One constructor per function of another package that the executor calls.
  The dispatch target \<open>tunnel.Tunnel\<close>, a process-wide constant passed to every
  listener call, is left out of the arguments. \<open>SetTProxyIPTables\<close> carries the
  error the call returned, \<open>Initial\<close> the name of the provider it was called on.
\<close>

datatype call =
    PatchInboundListeners "(string \<times> string) list" bool
  | SetAllowLan bool
  | SetSkipAuthPrefixes "string list"
  | SetBindAddress string
  | ReCreateHTTP int
  | ReCreateSocks int
  | ReCreateRedir int
  | ReCreateAutoRedir "string list"
  | ReCreateTProxy int
  | ReCreateMixed int
  | ReCreateShadowSocks string
  | ReCreateVmess string
  | ReCreateTuic string
  | ReCreateServer string "Resolver option" "ResolverEnhancer option"
  | SetMode string
  | SetFindProcessMode string
  | SetTcpConcurrent bool
  | SetTfo bool
  | SetMPTCP bool
  | FlushCache
  | SetLoader string
  | CleanupTProxyIPTables
  | SetTProxyIPTables string "string list" "16 word" "16 word" "string option"
  | Initial_call string
  | Infoln string "arg list"
  | Errorln string "arg list"

record world =
  calls :: "call list"
  allowLan :: bool
  skipAuthPrefixes :: "string list"
  bindAddress :: string
  tcpConcurrent :: bool
  DisableIPv6 :: bool
  adapter_UnifiedDelay :: bool
  DefaultInterface :: string
  DefaultRoutingMark :: "32 word"
  DefaultResolver :: "Resolver option"
  DefaultHostMapper :: "Enhancer option"
  DefaultLocalServer :: "LocalServer option"
  ProxyServerHostResolver :: "Resolver option"
  profile_StoreSelected :: bool

definition call :: "call \<Rightarrow> world \<Rightarrow> world" where
  "call c w = w\<lparr>calls := calls w @ [c]\<rparr>"

subsection \<open>Listener reconciliation\<close>

text \<open>
  Modelled from the spec: \<open>listener.SetAllowLan\<close>, \<open>inbound.SetSkipAuthPrefixes\<close>
  and \<open>listener.SetBindAddress\<close> are not in the sources at hand; each stores its
  argument in the process-wide setting it names (the one \<open>GetGeneral\<close> reads back
  through \<open>listener.AllowLan()\<close>, \<open>inbound.SkipAuthPrefixes()\<close> and
  \<open>listener.BindAddress()\<close>).
\<close>

definition listener_SetAllowLan :: "bool \<Rightarrow> world \<Rightarrow> world" where
  "listener_SetAllowLan b w = call (SetAllowLan b) (w\<lparr>allowLan := b\<rparr>)"

definition inbound_SetSkipAuthPrefixes :: "string list \<Rightarrow> world \<Rightarrow> world" where
  "inbound_SetSkipAuthPrefixes ps w = call (SetSkipAuthPrefixes ps) (w\<lparr>skipAuthPrefixes := ps\<rparr>)"

definition listener_SetBindAddress :: "string \<Rightarrow> world \<Rightarrow> world" where
  "listener_SetBindAddress a w = call (SetBindAddress a) (w\<lparr>bindAddress := a\<rparr>)"

text \<open>
  \<open>updateListeners general listeners force\<close>. The first argument \<open>CMFA\<close> is the
  build constant \<open>features.CMFA\<close>.
\<close>

definition updateListeners ::
  "bool \<Rightarrow> General \<Rightarrow> (string \<times> string) list \<Rightarrow> bool \<Rightarrow> world \<Rightarrow> world" where
  "updateListeners CMFA general listeners force w =
    (let w = call (PatchInboundListeners listeners True) w in
     if \<not> force then w
     else
       let allowLan = AllowLan general;
           w = listener_SetAllowLan allowLan w;
           w = inbound_SetSkipAuthPrefixes (SkipAuthPrefixes general) w;
           bindAddress = BindAddress general;
           w = listener_SetBindAddress bindAddress w;
           w = call (ReCreateHTTP (Port general)) w;
           w = call (ReCreateSocks (SocksPort general)) w;
           w = call (ReCreateRedir (RedirPort general)) w;
           w = (if \<not> CMFA then call (ReCreateAutoRedir (EBpf_AutoRedir general)) w else w);
           w = call (ReCreateTProxy (TProxyPort general)) w;
           w = call (ReCreateMixed (MixedPort general)) w;
           w = call (ReCreateShadowSocks (ShadowSocksConfig general)) w;
           w = call (ReCreateVmess (VmessConfig general)) w;
           w = call (ReCreateTuic (TuicServer general)) w
       in w)"

subsection \<open>General settings\<close>

text \<open>
  Modelled from the spec: \<open>dialer.SetTcpConcurrent\<close> is not in the sources at
  hand; it stores the TCP concurrent-dial toggle, which \<open>GetGeneral\<close> reads back
  through \<open>dialer.GetTcpConcurrent()\<close>.
\<close>

definition dialer_SetTcpConcurrent :: "bool \<Rightarrow> world \<Rightarrow> world" where
  "dialer_SetTcpConcurrent b w = call (SetTcpConcurrent b) (w\<lparr>tcpConcurrent := b\<rparr>)"

text \<open>
  \<open>int32(general.RoutingMark)\<close> keeps the low 32 bits of the mark, which is
  what \<open>word_of_int\<close> does.
\<close>

definition updateGeneral :: "General \<Rightarrow> world \<Rightarrow> world" where
  "updateGeneral general w =
    (let w = call (SetMode (Mode general)) w;
         w = call (SetFindProcessMode (FindProcessMode general)) w;
         w = w\<lparr>DisableIPv6 := \<not> IPv6 general\<rparr>;
         w = (if TCPConcurrent general
              then call (Infoln ''Use tcp concurrent'' [])
                     (dialer_SetTcpConcurrent (TCPConcurrent general) w)
              else w);
         w = call (SetTfo (InboundTfo general)) w;
         w = call (SetMPTCP (InboundMPTCP general)) w;
         w = w\<lparr>adapter_UnifiedDelay := UnifiedDelay general\<rparr>;
         w = w\<lparr>DefaultInterface := Interface general\<rparr>;
         w = w\<lparr>DefaultRoutingMark := word_of_int (RoutingMark general)\<rparr>;
         w = (if RoutingMark general > 0
              then call (Infoln ''Use routing mark: %#x'' [I (RoutingMark general)]) w
              else w);
         w = call FlushCache w;
         geodataLoader = GeodataLoader general;
         w = call (SetLoader geodataLoader) w
     in w)"

subsection \<open>The DNS stack\<close>

text \<open>
  A type assertion without the comma-ok form panics when the dynamic type is
  another one.
\<close>

datatype panic = interface_conversion

definition dns_Config_of :: "DNS \<Rightarrow> (string \<times> Provider) list \<Rightarrow> bool \<Rightarrow> dns_Config" where
  "dns_Config_of c ruleProvider generalIPv6 =
    \<lparr>cfg_Main = NameServer c,
     cfg_Fallback = Fallback c,
     cfg_IPv6 = (DNS_IPv6 c \<and> generalIPv6),
     cfg_IPv6Timeout = IPv6Timeout c,
     cfg_EnhancedMode = EnhancedMode c,
     cfg_Pool = FakeIPRange c,
     cfg_Hosts = Hosts c,
     cfg_FallbackFilter =
       \<lparr>ff_GeoIP = GeoIP (FallbackFilter c),
        ff_GeoIPCode = GeoIPCode (FallbackFilter c),
        ff_IPCIDR = IPCIDR (FallbackFilter c),
        ff_Domain = Domain (FallbackFilter c),
        ff_GeoSite = GeoSite (FallbackFilter c)\<rparr>,
     cfg_Default = DefaultNameserver c,
     cfg_Policy = NameServerPolicy c,
     cfg_ProxyServer = ProxyServerNameserver c,
     cfg_RuleProviders = ruleProvider,
     cfg_CacheAlgorithm = CacheAlgorithm c\<rparr>"

text \<open>
  \<open>updateDNS c ruleProvider generalIPv6\<close>. The first argument is the method
  \<open>Invalid()\<close> of \<open>dns.Resolver\<close>, which is not in the sources at hand: the
  executor stores the proxy-server-name resolver exactly when that method
  returns true.
\<close>

definition updateDNS ::
  "(Resolver \<Rightarrow> bool) \<Rightarrow> DNS \<Rightarrow> (string \<times> Provider) list \<Rightarrow> bool \<Rightarrow> world \<Rightarrow> panic + world" where
  "updateDNS Invalid c ruleProvider generalIPv6 w =
    (if \<not> DNS_Enable c then
       Inr (call (ReCreateServer [] None None)
             (w\<lparr>DefaultResolver := None, DefaultHostMapper := None, DefaultLocalServer := None\<rparr>))
     else
       let cfg = dns_Config_of c ruleProvider generalIPv6;
           r = NewResolver cfg;
           pr = NewProxyServerHostResolver r;
           m = NewEnhancer cfg
       in case (case DefaultHostMapper w of
                  None \<Rightarrow> Inr m
                | Some (dns_ResolverEnhancer old) \<Rightarrow> Inr (PatchFrom m old)
                | Some foreign_Enhancer \<Rightarrow> Inl interface_conversion) of
            Inl e \<Rightarrow> Inl e
          | Inr m \<Rightarrow>
              let w = w\<lparr>DefaultResolver := Some r\<rparr>;
                  w = w\<lparr>DefaultHostMapper := Some (dns_ResolverEnhancer m)\<rparr>;
                  w = w\<lparr>DefaultLocalServer := Some (NewLocalServer r m)\<rparr>;
                  w = (if Invalid pr then w\<lparr>ProxyServerHostResolver := Some pr\<rparr> else w)
              in Inr (call (ReCreateServer (Listen c) (Some r) (Some m)) w))"

subsection \<open>Provider initialisation\<close>

definition loadProvider :: "Provider \<Rightarrow> world \<Rightarrow> world" where
  "loadProvider pv w =
    (if VehicleType pv = Compatible then w
     else
       let w = call (Infoln ''Start initial provider %s'' [S (Name pv)]) w;
           w = call (Initial_call (Name pv)) w
       in case Initial pv of
            None \<Rightarrow> w
          | Some err \<Rightarrow>
              (case Type pv of
                 Proxy \<Rightarrow> call (Errorln ''initial proxy provider %s error: %v'' [S (Name pv), S err]) w
               | Rule \<Rightarrow> call (Errorln ''initial rule provider %s error: %v'' [S (Name pv), S err]) w))"

subsection \<open>Selected-proxy persistence\<close>

text \<open>
  \<open>patchSelectGroup\<close>: \<open>mapping\<close> is what \<open>cachefile.Cache().SelectedMap()\<close>
  returned, \<open>None\<close> for a nil map. The proxies are listed in the order in which
  the \<open>range\<close> loop visits the map; each name is bound to an object of its own,
  which \<open>ForceSet\<close> updates in place, so the function returns the proxies as
  they are after the loop.
\<close>

fun patchSelectGroup_loop ::
  "(string \<rightharpoonup> string) \<Rightarrow> (string \<times> Proxy) list \<Rightarrow> (string \<times> Proxy) list" where
  "patchSelectGroup_loop mapping [] = []"
| "patchSelectGroup_loop mapping ((name, proxy) # rest) =
    (case proxy of
       foreign_Proxy \<Rightarrow> (name, proxy) # patchSelectGroup_loop mapping rest
     | adapter_Proxy plain_adapter \<Rightarrow> (name, proxy) # patchSelectGroup_loop mapping rest
     | adapter_Proxy (SelectAble_adapter selector) \<Rightarrow>
         (case mapping name of
            None \<Rightarrow> (name, proxy) # patchSelectGroup_loop mapping rest
          | Some selected \<Rightarrow>
              (name, adapter_Proxy (SelectAble_adapter (ForceSet selected selector)))
                # patchSelectGroup_loop mapping rest))"

definition patchSelectGroup ::
  "(string \<rightharpoonup> string) option \<Rightarrow> (string \<times> Proxy) list \<Rightarrow> (string \<times> Proxy) list" where
  "patchSelectGroup SelectedMap proxies =
    (case SelectedMap of
       None \<Rightarrow> proxies
     | Some mapping \<Rightarrow> patchSelectGroup_loop mapping proxies)"

definition updateProfile ::
  "(string \<rightharpoonup> string) option \<Rightarrow> Config \<Rightarrow> world \<Rightarrow> world \<times> (string \<times> Proxy) list" where
  "updateProfile SelectedMap cfg w =
    (let profileCfg = Profile cfg;
         w = w\<lparr>profile_StoreSelected := StoreSelected profileCfg\<rparr>
     in if StoreSelected profileCfg
        then (w, patchSelectGroup SelectedMap (Proxies cfg))
        else (w, Proxies cfg))"

subsection \<open>Transparent-proxy kernel rules\<close>

datatype outcome = Return | Exit int

text \<open>
  \<open>updateIPTables cfg\<close>. The first three arguments are \<open>runtime.GOOS\<close>,
  \<open>netip.ParseAddrPort\<close> and the result of \<open>tproxy.SetTProxyIPTables\<close> for
  given arguments (\<open>None\<close> for a nil error). The body assigns the function-wide
  variable \<open>err\<close> and returns; the deferred function then reads it.
  \<open>updateIPTables_body\<close> returns that variable with the state, and
  \<open>updateIPTables\<close> runs the deferred function on it. \<open>uint16(tProxyPort)\<close>
  keeps the low 16 bits.
\<close>

definition updateIPTables_body ::
  "(string \<Rightarrow> string + AddrPort) \<Rightarrow>
   (string \<Rightarrow> string list \<Rightarrow> 16 word \<Rightarrow> 16 word \<Rightarrow> string option) \<Rightarrow>
   Config \<Rightarrow> world \<Rightarrow> string option \<times> world" where
  "updateIPTables_body ParseAddrPort tproxy_SetTProxyIPTables cfg w =
    (let iptables = IPTables cfg in
     if Tun_Enable (Tun (General cfg))
     then (Some ''when tun is enabled, iptables cannot be set automatically'', w)
     else
       let inboundInterface = ''lo'';
           bypass = Bypass iptables;
           tProxyPort = TProxyPort (General cfg);
           dnsCfg = DNS cfg
       in if tProxyPort = 0 then (Some ''tproxy-port must be greater than zero'', w)
          else if \<not> DNS_Enable dnsCfg then (Some ''DNS server must be enable'', w)
          else
            case ParseAddrPort (Listen dnsCfg) of
              Inl e \<Rightarrow> (Some ''DNS server must be correct'', w)
            | Inr dnsPort \<Rightarrow>
                let inboundInterface =
                      (if InboundInterface iptables \<noteq> [] then InboundInterface iptables
                       else inboundInterface);
                    w = (if DefaultRoutingMark w = 0 then w\<lparr>DefaultRoutingMark := 2158\<rparr> else w);
                    err = tproxy_SetTProxyIPTables inboundInterface bypass
                            (word_of_int tProxyPort) (AddrPort_Port dnsPort);
                    w = call (SetTProxyIPTables inboundInterface bypass
                            (word_of_int tProxyPort) (AddrPort_Port dnsPort) err) w
                in if err \<noteq> None then (err, w)
                   else (None, call (Infoln ''[IPTABLES] Setting iptables completed'' []) w))"

definition updateIPTables ::
  "string \<Rightarrow> (string \<Rightarrow> string + AddrPort) \<Rightarrow>
   (string \<Rightarrow> string list \<Rightarrow> 16 word \<Rightarrow> 16 word \<Rightarrow> string option) \<Rightarrow>
   Config \<Rightarrow> world \<Rightarrow> outcome \<times> world" where
  "updateIPTables GOOS ParseAddrPort tproxy_SetTProxyIPTables cfg w =
    (let w = call CleanupTProxyIPTables w;
         iptables = IPTables cfg
     in if GOOS \<noteq> ''linux'' \<or> \<not> IPTables_Enable iptables then (Return, w)
        else
          case updateIPTables_body ParseAddrPort tproxy_SetTProxyIPTables cfg w of
            (None, w) \<Rightarrow> (Return, w)
          | (Some err, w) \<Rightarrow>
              (Exit 2, call (Errorln ''[IPTABLES] setting iptables failed: %s'' [S err]) w))"

subsection \<open>The three provider phases as goroutine pools\<close>

text \<open>
  \<open>loadRuleProvider\<close>, \<open>loadProxyProvider\<close> and \<open>hcCompatibleProvider\<close> have
  one shape: the calling goroutine ranges over the providers and, for each one
  it launches, does \<open>wg.Add(1)\<close>, sends a token into the channel \<open>ch\<close> of
  capacity \<open>concurrentCount\<close>, and starts a goroutine; the goroutine runs its
  task and then, in its deferred function, receives a token from \<open>ch\<close> and
  calls \<open>wg.Done()\<close>. The three differ in four places, collected in \<open>phase\<close>:
  whether a provider is launched at all (\<open>guard\<close>), what the caller logs before
  launching (\<open>announce\<close>), what the goroutine runs (\<open>task\<close>), and whether the
  caller ends with \<open>wg.Wait()\<close> (\<open>waits\<close>).

  The state of a phase is the caller's position (\<open>main\<close>), the providers the
  loop has still to visit (\<open>todo\<close>, in the order the \<open>range\<close> visits the map),
  the WaitGroup counter, the number of tokens in the channel, and the goroutines
  started so far with their positions. A scheduler picks the thread that takes
  the next step; a thread that cannot move (a send on a full channel, a receive
  on an empty one, a \<open>Wait\<close> on a non-zero counter) leaves the state as it is.
  \<open>wg.Done()\<close> on a zero counter panics, which ends the process (\<open>Crashed\<close>).
  The task of a goroutine is taken as one step.
\<close>

datatype main_pc = Loop | Send Provider | Wait | Returned | Crashed

datatype go_pc = Task | Recv | Done | Finished

record pool =
  todo :: "Provider list"
  main :: main_pc
  wg :: nat
  ch :: nat
  gos :: "(Provider \<times> go_pc) list"
  world :: world

record phase =
  guard :: "Provider \<Rightarrow> bool"
  announce :: "Provider \<Rightarrow> world \<Rightarrow> world"
  task :: "Provider \<Rightarrow> world \<Rightarrow> world"
  waits :: bool

datatype thread = Main | Go nat

text \<open>
  The caller. \<open>Loop\<close>: the head of the \<open>for\<close>; at the end of the range it
  goes to \<open>wg.Wait()\<close> if the function has one and returns otherwise; for a
  provider that passes the guard it logs and does \<open>wg.Add(1)\<close>. \<open>Send p\<close>:
  \<open>ch <- struct{}{}\<close> followed by the \<open>go\<close> statement. \<open>K\<close> is
  \<open>concurrentCount\<close>, a constant of the package declared outside this file.
\<close>

definition main_step :: "nat \<Rightarrow> phase \<Rightarrow> pool \<Rightarrow> pool" where
  "main_step K ph s =
    (case main s of
       Loop \<Rightarrow>
         (case todo s of
            [] \<Rightarrow> s\<lparr>main := (if waits ph then Wait else Returned)\<rparr>
          | p # rest \<Rightarrow>
              if guard ph p
              then s\<lparr>todo := rest, world := announce ph p (world s), wg := wg s + 1, main := Send p\<rparr>
              else s\<lparr>todo := rest\<rparr>)
     | Send p \<Rightarrow>
         if ch s < K then s\<lparr>ch := ch s + 1, gos := gos s @ [(p, Task)], main := Loop\<rparr> else s
     | Wait \<Rightarrow> if wg s = 0 then s\<lparr>main := Returned\<rparr> else s
     | Returned \<Rightarrow> s
     | Crashed \<Rightarrow> s)"

text \<open>
  Goroutine number \<open>i\<close>. \<open>Task\<close>: the body of the \<open>go func\<close>; \<open>Recv\<close>:
  \<open><-ch\<close>; \<open>Done\<close>: \<open>wg.Done()\<close>.
\<close>

definition go_step :: "phase \<Rightarrow> nat \<Rightarrow> pool \<Rightarrow> pool" where
  "go_step ph i s =
    (if length (gos s) \<le> i then s
     else
       case gos s ! i of
         (p, Task) \<Rightarrow> s\<lparr>world := task ph p (world s), gos := (gos s)[i := (p, Recv)]\<rparr>
       | (p, Recv) \<Rightarrow> if 0 < ch s then s\<lparr>ch := ch s - 1, gos := (gos s)[i := (p, Done)]\<rparr> else s
       | (p, Done) \<Rightarrow>
           if 0 < wg s then s\<lparr>wg := wg s - 1, gos := (gos s)[i := (p, Finished)]\<rparr>
           else s\<lparr>main := Crashed\<rparr>
       | (p, Finished) \<Rightarrow> s)"

definition step :: "nat \<Rightarrow> phase \<Rightarrow> thread \<Rightarrow> pool \<Rightarrow> pool" where
  "step K ph t s =
    (if main s = Crashed then s
     else case t of Main \<Rightarrow> main_step K ph s | Go i \<Rightarrow> go_step ph i s)"

definition run :: "nat \<Rightarrow> phase \<Rightarrow> thread list \<Rightarrow> pool \<Rightarrow> pool" where
  "run K ph sched s = fold (step K ph) sched s"

text \<open>The state on entry: \<open>wg := sync.WaitGroup{}\<close>, \<open>ch := make(chan struct{}, K)\<close>.\<close>

definition start :: "Provider list \<Rightarrow> world \<Rightarrow> pool" where
  "start ps w = \<lparr>todo = ps, main = Loop, wg = 0, ch = 0, gos = [], world = w\<rparr>"

text \<open>The goroutine body of \<open>hcCompatibleProvider\<close>.\<close>

definition hcCompatibleProvider_task :: "Provider \<Rightarrow> world \<Rightarrow> world" where
  "hcCompatibleProvider_task proxyProvider w =
    (let w = call (Initial_call (Name proxyProvider)) w
     in case Initial proxyProvider of
          None \<Rightarrow> w
        | Some err \<Rightarrow>
            call (Errorln ''initial Compatible provider %s error: %v''
                    [S (Name proxyProvider), S err]) w)"

definition loadRuleProvider :: phase where
  "loadRuleProvider =
     \<lparr>guard = (\<lambda>ruleProvider. True), announce = (\<lambda>ruleProvider w. w),
      task = loadProvider, waits = True\<rparr>"

definition loadProxyProvider :: phase where
  "loadProxyProvider =
     \<lparr>guard = (\<lambda>proxyProvider. True), announce = (\<lambda>proxyProvider w. w),
      task = loadProvider, waits = True\<rparr>"

text \<open>\<open>hcCompatibleProvider\<close> ends after its loop: it has no \<open>wg.Wait()\<close>.\<close>

definition hcCompatibleProvider :: phase where
  "hcCompatibleProvider =
     \<lparr>guard = (\<lambda>proxyProvider. VehicleType proxyProvider = Compatible),
      announce = (\<lambda>proxyProvider.
         call (Infoln ''Start initial Compatible provider %s'' [S (Name proxyProvider)])),
      task = hcCompatibleProvider_task, waits = False\<rparr>"

subsection \<open>Notions used in the statements\<close>

text \<open>The calls made between two states, and the providers whose \<open>Initial\<close> was called.\<close>

definition new_calls :: "world \<Rightarrow> world \<Rightarrow> call list" where
  "new_calls w w' = drop (length (calls w)) (calls w')"

definition Initial_names :: "call list \<Rightarrow> string list" where
  "Initial_names cs = concat (map (\<lambda>c. case c of Initial_call n \<Rightarrow> [n] | _ \<Rightarrow> []) cs)"

definition is_SelectAble :: "Proxy \<Rightarrow> bool" where
  "is_SelectAble proxy =
     (case proxy of adapter_Proxy (SelectAble_adapter selector) \<Rightarrow> True | _ \<Rightarrow> False)"

text \<open>
  Tasks in flight: goroutines whose task has not ended. Goroutines that hold a
  channel token, and goroutines that have not yet called \<open>wg.Done()\<close>.
\<close>

definition in_flight :: "pool \<Rightarrow> nat" where
  "in_flight s = length (filter (\<lambda>g. snd g = Task) (gos s))"

definition holding :: "pool \<Rightarrow> nat" where
  "holding s = length (filter (\<lambda>g. snd g = Task \<or> snd g = Recv) (gos s))"

definition unfinished :: "pool \<Rightarrow> nat" where
  "unfinished s = length (filter (\<lambda>g. snd g \<noteq> Finished) (gos s))"

definition pending :: "pool \<Rightarrow> Provider list" where
  "pending s = (case main s of Send p \<Rightarrow> [p] | _ \<Rightarrow> [])"

text \<open>The invariants of a phase.\<close>

definition pool_inv :: "nat \<Rightarrow> pool \<Rightarrow> bool" where
  "pool_inv K s \<longleftrightarrow>
     main s \<noteq> Crashed \<and> ch s = holding s \<and> ch s \<le> K \<and>
     wg s = unfinished s + (case main s of Send p \<Rightarrow> 1 | _ \<Rightarrow> 0)"

definition barrier_inv :: "pool \<Rightarrow> bool" where
  "barrier_inv s \<longleftrightarrow>
     ((main s = Wait \<or> main s = Returned) \<longrightarrow> todo s = []) \<and>
     (main s = Returned \<longrightarrow> unfinished s = 0)"

definition launched_inv :: "phase \<Rightarrow> Provider list \<Rightarrow> pool \<Rightarrow> bool" where
  "launched_inv ph ps s \<longleftrightarrow>
     (main s \<noteq> Crashed \<longrightarrow>
      map fst (gos s) @ pending s @ filter (guard ph) (todo s) = filter (guard ph) ps)"



subsection \<open>Sample inputs\<close>

definition sample_General :: General where
  "sample_General =
    \<lparr>Port = 7890, SocksPort = 7891, RedirPort = 7892, TProxyPort = 7893, MixedPort = 7894,
     Tun = \<lparr>Tun_Enable = False, RedirectToTun = []\<rparr>,
     TuicServer = ''tuic'', ShadowSocksConfig = ''ss'', VmessConfig = ''vmess'',
     SkipAuthPrefixes = [''127.0.0.1/8''], AllowLan = True, BindAddress = ''*'',
     EBpf_AutoRedir = [''eth0''], Mode = ''rule'', FindProcessMode = ''strict'',
     LogLevel = ''info'', IPv6 = True, GeodataLoader = ''memconservative'',
     Interface = ''eth0'', RoutingMark = 0, TCPConcurrent = False, InboundTfo = False,
     InboundMPTCP = False, UnifiedDelay = False\<rparr>"

definition sample_DNS :: DNS where
  "sample_DNS =
    \<lparr>DNS_Enable = True, NameServer = [''1.1.1.1''], Fallback = [], DNS_IPv6 = False,
     IPv6Timeout = 100, EnhancedMode = ''fake-ip'', FakeIPRange = ''198.18.0.0/16'',
     Hosts = [],
     FallbackFilter = \<lparr>GeoIP = False, GeoIPCode = ''CN'', IPCIDR = [], Domain = [], GeoSite = []\<rparr>,
     DefaultNameserver = [''8.8.8.8''], NameServerPolicy = [],
     ProxyServerNameserver = [''9.9.9.9''], CacheAlgorithm = ''lru'',
     Listen = ''127.0.0.1:1053''\<rparr>"

definition sample_world :: world where
  "sample_world =
    \<lparr>calls = [], allowLan = False, skipAuthPrefixes = [], bindAddress = ''127.0.0.1'',
     tcpConcurrent = True, DisableIPv6 = False, adapter_UnifiedDelay = False,
     DefaultInterface = [], DefaultRoutingMark = 0,
     DefaultResolver = None, DefaultHostMapper = None, DefaultLocalServer = None,
     ProxyServerHostResolver = None, profile_StoreSelected = False\<rparr>"

definition sample_old_enhancer :: ResolverEnhancer where
  "sample_old_enhancer =
     \<lparr>enh_Config = dns_Config_of sample_DNS [] False,
      cache = [''example.com'' \<mapsto> ''198.18.0.5'']\<rparr>"

definition sample_Invalid :: "Resolver \<Rightarrow> bool" where
  "sample_Invalid r =
     (case r of
        NewResolver cfg \<Rightarrow> cfg_Main cfg \<noteq> []
      | NewProxyServerHostResolver (NewResolver cfg) \<Rightarrow> cfg_ProxyServer cfg \<noteq> []
      | NewProxyServerHostResolver (NewProxyServerHostResolver r') \<Rightarrow> False)"

definition sample_Config :: Config where
  "sample_Config =
    \<lparr>General = sample_General, DNS = sample_DNS,
     IPTables = \<lparr>IPTables_Enable = True, InboundInterface = [], Bypass = []\<rparr>,
     Profile = \<lparr>StoreSelected = True\<rparr>,
     Proxies =
       [(''Auto'', adapter_Proxy (SelectAble_adapter \<lparr>active = ''NodeB''\<rparr>)),
        (''NodeA'', adapter_Proxy plain_adapter),
        (''Manual'', adapter_Proxy (SelectAble_adapter \<lparr>active = ''NodeB''\<rparr>))],
     Providers = [], RuleProviders = []\<rparr>"

definition sample_ParseAddrPort :: "string \<Rightarrow> string + AddrPort" where
  "sample_ParseAddrPort s =
     (if s = ''127.0.0.1:1053'' then Inr \<lparr>Addr = ''127.0.0.1'', AddrPort_Port = 1053\<rparr>
      else Inl ''not an ip:port'')"


definition sample_compatible :: Provider where
  "sample_compatible =
     \<lparr>Name = ''inline'', Type = Proxy, VehicleType = Compatible, Initial = None\<rparr>"

section \<open>Properties\<close>

text \<open>
  C4. With \<open>force = False\<close>, \<open>updateListeners\<close> performs the generic
  inbound-listener patch and nothing else: the only call made is
  \<open>PatchInboundListeners\<close>, no protocol listener is recreated, and the allow-LAN
  flag, the auth-skip prefixes and the bind address keep their values.
\<close>

theorem updateListeners_no_force:
  "updateListeners CMFA general listeners False w =
     w\<lparr>calls := calls w @ [PatchInboundListeners listeners True]\<rparr>"
  by (simp add: updateListeners_def call_def)

theorem updateListeners_no_force_witness:
  "updateListeners False sample_General [(''in'', ''socks'')] False sample_world =
     sample_world\<lparr>calls := [PatchInboundListeners [(''in'', ''socks'')] True]\<rparr>
   \<and> allowLan (updateListeners False sample_General [(''in'', ''socks'')] False sample_world) = False
   \<and> bindAddress (updateListeners False sample_General [(''in'', ''socks'')] False sample_world) = ''127.0.0.1''"
  using updateListeners_no_force [of False sample_General "[(''in'', ''socks'')]" sample_world]
  by (simp add: sample_world_def)

text \<open>
  C5. With \<open>force = True\<close>, \<open>updateListeners\<close> makes, after the generic patch,
  exactly these calls in this order: it sets the allow-LAN flag, the auth-skip
  prefixes and the bind address, and then recreates each protocol listener once,
  HTTP, SOCKS, Redir, auto-redir (only when the build is not CMFA), TProxy,
  Mixed, Shadowsocks, Vmess, Tuic, each with its configured port or
  specification. The three settings end with the configured values.
\<close>

theorem updateListeners_force:
  "calls (updateListeners CMFA general listeners True w) =
     calls w @
     [PatchInboundListeners listeners True,
      SetAllowLan (AllowLan general),
      SetSkipAuthPrefixes (SkipAuthPrefixes general),
      SetBindAddress (BindAddress general),
      ReCreateHTTP (Port general),
      ReCreateSocks (SocksPort general),
      ReCreateRedir (RedirPort general)] @
     (if CMFA then [] else [ReCreateAutoRedir (EBpf_AutoRedir general)]) @
     [ReCreateTProxy (TProxyPort general),
      ReCreateMixed (MixedPort general),
      ReCreateShadowSocks (ShadowSocksConfig general),
      ReCreateVmess (VmessConfig general),
      ReCreateTuic (TuicServer general)]
   \<and> allowLan (updateListeners CMFA general listeners True w) = AllowLan general
   \<and> skipAuthPrefixes (updateListeners CMFA general listeners True w) = SkipAuthPrefixes general
   \<and> bindAddress (updateListeners CMFA general listeners True w) = BindAddress general"
  by (simp add: updateListeners_def call_def listener_SetAllowLan_def
      inbound_SetSkipAuthPrefixes_def listener_SetBindAddress_def Let_def)

theorem updateListeners_force_witness:
  "calls (updateListeners False sample_General [] True sample_world) =
     [PatchInboundListeners [] True, SetAllowLan True, SetSkipAuthPrefixes [''127.0.0.1/8''],
      SetBindAddress ''*'', ReCreateHTTP 7890, ReCreateSocks 7891, ReCreateRedir 7892,
      ReCreateAutoRedir [''eth0''], ReCreateTProxy 7893, ReCreateMixed 7894,
      ReCreateShadowSocks ''ss'', ReCreateVmess ''vmess'', ReCreateTuic ''tuic'']
   \<and> calls (updateListeners True sample_General [] True sample_world) =
     [PatchInboundListeners [] True, SetAllowLan True, SetSkipAuthPrefixes [''127.0.0.1/8''],
      SetBindAddress ''*'', ReCreateHTTP 7890, ReCreateSocks 7891, ReCreateRedir 7892,
      ReCreateTProxy 7893, ReCreateMixed 7894,
      ReCreateShadowSocks ''ss'', ReCreateVmess ''vmess'', ReCreateTuic ''tuic'']"
  using updateListeners_force [of False sample_General "[]" sample_world]
    updateListeners_force [of True sample_General "[]" sample_world]
  by (simp add: sample_world_def sample_General_def)

text \<open>
  C10. \<open>updateGeneral\<close> turns concurrent TCP dialing on when \<open>TCPConcurrent\<close>
  is set. When it is not set, \<open>updateGeneral\<close> makes no call to
  \<open>dialer.SetTcpConcurrent\<close> at all, so the toggle keeps the value it had: an
  apply never switches it off.
\<close>

theorem updateGeneral_TCPConcurrent:
  "(TCPConcurrent general \<longrightarrow>
      tcpConcurrent (updateGeneral general w) \<and>
      SetTcpConcurrent True \<in> set (new_calls w (updateGeneral general w)))
   \<and> (\<not> TCPConcurrent general \<longrightarrow>
      tcpConcurrent (updateGeneral general w) = tcpConcurrent w \<and>
      (\<forall>b. SetTcpConcurrent b \<notin> set (new_calls w (updateGeneral general w))))"
  by (simp add: updateGeneral_def call_def dialer_SetTcpConcurrent_def new_calls_def Let_def)

theorem updateGeneral_TCPConcurrent_witness:
  "\<not> TCPConcurrent sample_General \<and> tcpConcurrent sample_world
   \<and> tcpConcurrent (updateGeneral sample_General sample_world)
   \<and> (\<forall>b. SetTcpConcurrent b \<notin> set (new_calls sample_world (updateGeneral sample_General sample_world)))
   \<and> TCPConcurrent (sample_General\<lparr>TCPConcurrent := True\<rparr>)
   \<and> tcpConcurrent (updateGeneral (sample_General\<lparr>TCPConcurrent := True\<rparr>)
        (sample_world\<lparr>tcpConcurrent := False\<rparr>))"
  using updateGeneral_TCPConcurrent [of sample_General sample_world]
    updateGeneral_TCPConcurrent [of "sample_General\<lparr>TCPConcurrent := True\<rparr>"
      "sample_world\<lparr>tcpConcurrent := False\<rparr>"]
  by (simp add: sample_General_def sample_world_def)

text \<open>
  C7. With DNS disabled, \<open>updateDNS\<close> sets the default resolver, the default
  host mapper and the default local server to nil, recreates the DNS listening
  service with an empty address and no resolver or mapper, and does nothing
  else: the rest of the state, the proxy-server-name resolver included, is as
  before, and the enhancer that was installed, with its cache, is dropped.
\<close>

theorem updateDNS_disabled:
  "\<not> DNS_Enable c \<Longrightarrow>
   updateDNS Invalid c ruleProvider ipv6_on w =
     Inr (w\<lparr>calls := calls w @ [ReCreateServer [] None None],
            DefaultResolver := None, DefaultHostMapper := None, DefaultLocalServer := None\<rparr>)"
  by (simp add: updateDNS_def call_def)

theorem updateDNS_disabled_witness:
  "\<not> DNS_Enable (sample_DNS\<lparr>DNS_Enable := False\<rparr>) \<and>
   updateDNS sample_Invalid (sample_DNS\<lparr>DNS_Enable := False\<rparr>) [] True
     (sample_world\<lparr>DefaultHostMapper := Some (dns_ResolverEnhancer sample_old_enhancer)\<rparr>) =
   Inr (sample_world\<lparr>calls := [ReCreateServer [] None None]\<rparr>)"
  using updateDNS_disabled [of "sample_DNS\<lparr>DNS_Enable := False\<rparr>" sample_Invalid "[]" True
      "sample_world\<lparr>DefaultHostMapper := Some (dns_ResolverEnhancer sample_old_enhancer)\<rparr>"]
  by (simp add: sample_DNS_def sample_world_def)

text \<open>
  C8. With DNS enabled, \<open>updateDNS\<close> builds the proxy-server-name resolver from
  the new resolver and stores it in \<open>resolver.ProxyServerHostResolver\<close> exactly
  when the check the executor makes on it returns true; otherwise the slot keeps
  its previous value. The check is the method \<open>Invalid()\<close> of the dns package,
  which is outside this file; the specification describes a true result as the
  resolver reporting itself valid, that is, proxy-server resolution being
  configured. The statement holds for every implementation of the check. The
  only apply that does not reach the store is one that finds a host mapper of a
  foreign type and panics at the type assertion before it.
\<close>

theorem updateDNS_ProxyServerHostResolver:
  assumes "DNS_Enable c"
  shows "case updateDNS Invalid c ruleProvider ipv6_on w of
       Inl e \<Rightarrow> DefaultHostMapper w = Some foreign_Enhancer
     | Inr w' \<Rightarrow>
         ProxyServerHostResolver w' =
           (let pr = NewProxyServerHostResolver
                       (NewResolver (dns_Config_of c ruleProvider ipv6_on))
            in if Invalid pr then Some pr else ProxyServerHostResolver w)"
  using assms
  by (auto simp add: updateDNS_def call_def Let_def split: option.splits Enhancer.splits)

theorem updateDNS_ProxyServerHostResolver_witness:
  "DNS_Enable sample_DNS \<and>
   (\<exists>w'. updateDNS sample_Invalid sample_DNS [] True sample_world = Inr w' \<and>
      ProxyServerHostResolver w' =
        Some (NewProxyServerHostResolver (NewResolver (dns_Config_of sample_DNS [] True)))) \<and>
   (\<exists>w'. updateDNS sample_Invalid (sample_DNS\<lparr>ProxyServerNameserver := []\<rparr>) [] True
        (sample_world\<lparr>ProxyServerHostResolver := Some (NewResolver (dns_Config_of sample_DNS [] False))\<rparr>) = Inr w' \<and>
      ProxyServerHostResolver w' = Some (NewResolver (dns_Config_of sample_DNS [] False)))"
  using updateDNS_ProxyServerHostResolver [where c = sample_DNS and Invalid = sample_Invalid
      and ruleProvider = "[]" and ipv6_on = True and w = sample_world]
    updateDNS_ProxyServerHostResolver [where c = "sample_DNS\<lparr>ProxyServerNameserver := []\<rparr>"
      and Invalid = sample_Invalid and ruleProvider = "[]" and ipv6_on = True
      and w = "sample_world\<lparr>ProxyServerHostResolver :=
                 Some (NewResolver (dns_Config_of sample_DNS [] False))\<rparr>"]
  by (simp add: updateDNS_def call_def NewEnhancer_def sample_DNS_def sample_world_def
      sample_Invalid_def dns_Config_of_def Let_def)

text \<open>
  C3. With DNS enabled and an enhancer in the host-mapper slot, \<open>updateDNS\<close>
  returns normally, and what it installs as the new host mapper is the newly
  built enhancer after \<open>PatchFrom\<close> has copied the old enhancer's cache into
  it: every cache entry of the old enhancer is an entry of the installed one.
\<close>

theorem updateDNS_cache_carry_over:
  assumes "DNS_Enable c" and "DefaultHostMapper w = Some (dns_ResolverEnhancer old)"
  shows "\<exists>w' m. updateDNS Invalid c ruleProvider ipv6_on w = Inr w' \<and>
     m = PatchFrom (NewEnhancer (dns_Config_of c ruleProvider ipv6_on)) old \<and>
     DefaultHostMapper w' = Some (dns_ResolverEnhancer m) \<and>
     (\<forall>host ip. cache old host = Some ip \<longrightarrow> cache m host = Some ip)"
  using assms
  by (auto simp add: updateDNS_def call_def Let_def PatchFrom_def split: option.splits Enhancer.splits)

theorem updateDNS_cache_carry_over_witness:
  "DNS_Enable sample_DNS \<and> cache sample_old_enhancer ''example.com'' = Some ''198.18.0.5'' \<and>
   (\<exists>w' m. updateDNS sample_Invalid sample_DNS [] True
        (sample_world\<lparr>DefaultHostMapper := Some (dns_ResolverEnhancer sample_old_enhancer)\<rparr>) = Inr w' \<and>
      DefaultHostMapper w' = Some (dns_ResolverEnhancer m) \<and>
      cache m ''example.com'' = Some ''198.18.0.5'')"
proof -
  have e: "DNS_Enable sample_DNS" by (simp add: sample_DNS_def)
  have c: "cache sample_old_enhancer ''example.com'' = Some ''198.18.0.5''"
    by (simp add: sample_old_enhancer_def)
  have h: "DefaultHostMapper
      (sample_world\<lparr>DefaultHostMapper := Some (dns_ResolverEnhancer sample_old_enhancer)\<rparr>) =
      Some (dns_ResolverEnhancer sample_old_enhancer)" by simp
  from updateDNS_cache_carry_over [OF e h, of sample_Invalid "[]" True] c
  show ?thesis using e by blast
qed

lemma patchSelectGroup_loop_map:
  "patchSelectGroup_loop mapping proxies =
     map (\<lambda>e. case e of
        (name, adapter_Proxy (SelectAble_adapter selector)) \<Rightarrow>
          (case mapping name of
             None \<Rightarrow> e
           | Some selected \<Rightarrow> (name, adapter_Proxy (SelectAble_adapter (ForceSet selected selector))))
      | _ \<Rightarrow> e) proxies"
  by (induction mapping proxies rule: patchSelectGroup_loop.induct)
     (simp_all split: Proxy.splits ProxyAdapter.splits option.splits)

text \<open>
  C9. With selected-proxy persistence enabled, \<open>updateProfile\<close> stores the
  flag and re-applies the remembered selections: a proxy that is an
  \<open>*adapter.Proxy\<close> around a selector-capable group, and whose name has an entry
  in the persisted map, gets that entry as its active selection through
  \<open>ForceSet\<close>; a proxy that is not selector-capable, or whose name has no entry
  (also when there is no persisted map at all), is as it was. No proxy is added
  or removed.
\<close>

theorem updateProfile_reapplies_selection:
  assumes "StoreSelected (Profile cfg)"
    and "updateProfile SelectedMap cfg w = (w', proxies')"
  shows "profile_StoreSelected w' \<and> length proxies' = length (Proxies cfg) \<and>
    (\<forall>i name selector mapping selected.
       i < length (Proxies cfg) \<and>
       Proxies cfg ! i = (name, adapter_Proxy (SelectAble_adapter selector)) \<and>
       SelectedMap = Some mapping \<and> mapping name = Some selected \<longrightarrow>
       proxies' ! i = (name, adapter_Proxy (SelectAble_adapter (ForceSet selected selector))) \<and>
       active (ForceSet selected selector) = selected) \<and>
    (\<forall>i. i < length (Proxies cfg) \<and>
       (\<not> is_SelectAble (snd (Proxies cfg ! i)) \<or> SelectedMap = None \<or>
        (\<exists>mapping. SelectedMap = Some mapping \<and> mapping (fst (Proxies cfg ! i)) = None)) \<longrightarrow>
       proxies' ! i = Proxies cfg ! i)"
proof -
  from assms have w': "w' = w\<lparr>profile_StoreSelected := True\<rparr>"
    and p': "proxies' = patchSelectGroup SelectedMap (Proxies cfg)"
    by (simp_all add: updateProfile_def Let_def)
  have a: "profile_StoreSelected w'" using w' by simp
  have b: "length proxies' = length (Proxies cfg)"
    using p' by (simp add: patchSelectGroup_def patchSelectGroup_loop_map split: option.splits)
  have c: "proxies' ! i = (name, adapter_Proxy (SelectAble_adapter (ForceSet selected selector))) \<and>
       active (ForceSet selected selector) = selected"
    if "i < length (Proxies cfg)"
      "Proxies cfg ! i = (name, adapter_Proxy (SelectAble_adapter selector))"
      "SelectedMap = Some mapping" "mapping name = Some selected"
    for i name selector mapping selected
    using that p' by (simp add: patchSelectGroup_def patchSelectGroup_loop_map ForceSet_def)
  have d: "proxies' ! i = Proxies cfg ! i"
    if "i < length (Proxies cfg)"
      "\<not> is_SelectAble (snd (Proxies cfg ! i)) \<or> SelectedMap = None \<or>
        (\<exists>mapping. SelectedMap = Some mapping \<and> mapping (fst (Proxies cfg ! i)) = None)"
    for i
    using that p'
    by (cases "Proxies cfg ! i")
       (auto simp add: patchSelectGroup_def patchSelectGroup_loop_map is_SelectAble_def
          split: option.splits Proxy.splits ProxyAdapter.splits)
  show ?thesis using a b c d by blast
qed

theorem updateProfile_reapplies_selection_witness:
  "StoreSelected (Profile sample_Config) \<and>
   snd (updateProfile (Some [''Auto'' \<mapsto> ''NodeA'']) sample_Config sample_world) ! 0 =
     (''Auto'', adapter_Proxy (SelectAble_adapter \<lparr>active = ''NodeA''\<rparr>)) \<and>
   snd (updateProfile (Some [''Auto'' \<mapsto> ''NodeA'']) sample_Config sample_world) ! 1 =
     (''NodeA'', adapter_Proxy plain_adapter) \<and>
   snd (updateProfile (Some [''Auto'' \<mapsto> ''NodeA'']) sample_Config sample_world) ! 2 =
     (''Manual'', adapter_Proxy (SelectAble_adapter \<lparr>active = ''NodeB''\<rparr>))"
proof -
  let ?M = "[''Auto'' \<mapsto> ''NodeA'']"
  let ?r = "updateProfile (Some ?M) sample_Config sample_world"
  have s: "StoreSelected (Profile sample_Config)" by (simp add: sample_Config_def)
  have r: "?r = (fst ?r, snd ?r)" by simp
  note t = updateProfile_reapplies_selection [OF s r]
  have p: "Proxies sample_Config =
       [(''Auto'', adapter_Proxy (SelectAble_adapter \<lparr>active = ''NodeB''\<rparr>)),
        (''NodeA'', adapter_Proxy plain_adapter),
        (''Manual'', adapter_Proxy (SelectAble_adapter \<lparr>active = ''NodeB''\<rparr>))]"
    by (simp add: sample_Config_def)
  from t have "snd ?r ! 0 =
      (''Auto'', adapter_Proxy (SelectAble_adapter (ForceSet ''NodeA'' \<lparr>active = ''NodeB''\<rparr>)))"
    using p by simp
  then have 0: "snd ?r ! 0 = (''Auto'', adapter_Proxy (SelectAble_adapter \<lparr>active = ''NodeA''\<rparr>))"
    by (simp add: ForceSet_def)
  from t have "1 < length (Proxies sample_Config) \<and>
       (\<not> is_SelectAble (snd (Proxies sample_Config ! 1)) \<or> Some ?M = None \<or>
        (\<exists>mapping. Some ?M = Some mapping \<and> mapping (fst (Proxies sample_Config ! 1)) = None)) \<longrightarrow>
       snd ?r ! 1 = Proxies sample_Config ! 1" by blast
  then have 1: "snd ?r ! 1 = (''NodeA'', adapter_Proxy plain_adapter)"
    using p by (simp add: is_SelectAble_def)
  from t have "2 < length (Proxies sample_Config) \<and>
       (\<not> is_SelectAble (snd (Proxies sample_Config ! 2)) \<or> Some ?M = None \<or>
        (\<exists>mapping. Some ?M = Some mapping \<and> mapping (fst (Proxies sample_Config ! 2)) = None)) \<longrightarrow>
       snd ?r ! 2 = Proxies sample_Config ! 2" by blast
  then have 2: "snd ?r ! 2 = (''Manual'', adapter_Proxy (SelectAble_adapter \<lparr>active = ''NodeB''\<rparr>))"
    using p by simp
  show ?thesis using s 0 1 2 by simp
qed

text \<open>
  C1. \<open>updateIPTables\<close> always begins with the cleanup of the rules, which it
  calls once. On Linux with iptables enabled, if tun is enabled, or the
  transparent-proxy port is zero, or DNS is disabled, or the DNS listen address
  does not parse as address:port, or the installation call returns an error,
  then the process exits with status 2, and no installation call that succeeded
  is among the calls made: the installation was not called, or it failed.
\<close>

theorem updateIPTables_fatal:
  "(\<exists>rest. calls (snd (updateIPTables GOOS ParseAddrPort tproxy_SetTProxyIPTables cfg w)) =
              calls w @ CleanupTProxyIPTables # rest \<and>
            CleanupTProxyIPTables \<notin> set rest)
    \<and> (GOOS = ''linux'' \<and> IPTables_Enable (IPTables cfg) \<and>
        (Tun_Enable (Tun (General cfg)) \<or> TProxyPort (General cfg) = 0 \<or>
         \<not> DNS_Enable (DNS cfg) \<or>
         (\<exists>e. ParseAddrPort (Listen (DNS cfg)) = Inl e) \<or>
         (\<exists>dnsPort. ParseAddrPort (Listen (DNS cfg)) = Inr dnsPort \<and>
            tproxy_SetTProxyIPTables
              (if InboundInterface (IPTables cfg) \<noteq> [] then InboundInterface (IPTables cfg) else ''lo'')
              (Bypass (IPTables cfg)) (word_of_int (TProxyPort (General cfg)))
              (AddrPort_Port dnsPort) \<noteq> None))
       \<longrightarrow> fst (updateIPTables GOOS ParseAddrPort tproxy_SetTProxyIPTables cfg w) = Exit 2 \<and>
           (\<forall>i b p d. SetTProxyIPTables i b p d None \<notin>
              set (new_calls w (snd (updateIPTables GOOS ParseAddrPort tproxy_SetTProxyIPTables cfg w)))))"
  by (auto simp add: updateIPTables_def updateIPTables_body_def call_def new_calls_def Let_def
      split: sum.splits option.splits prod.splits if_splits)

theorem updateIPTables_fatal_witness:
  "updateIPTables ''linux'' sample_ParseAddrPort (\<lambda>i b p d. None)
      (sample_Config\<lparr>General := sample_General\<lparr>Tun := \<lparr>Tun_Enable = True, RedirectToTun = []\<rparr>\<rparr>\<rparr>)
      sample_world =
     (Exit 2, sample_world\<lparr>calls :=
        [CleanupTProxyIPTables,
         Errorln ''[IPTABLES] setting iptables failed: %s''
           [S ''when tun is enabled, iptables cannot be set automatically'']]\<rparr>)
   \<and> updateIPTables ''linux'' sample_ParseAddrPort (\<lambda>i b p d. None)
      (sample_Config\<lparr>General := sample_General\<lparr>TProxyPort := 0\<rparr>\<rparr>) sample_world =
     (Exit 2, sample_world\<lparr>calls :=
        [CleanupTProxyIPTables,
         Errorln ''[IPTABLES] setting iptables failed: %s''
           [S ''tproxy-port must be greater than zero'']]\<rparr>)
   \<and> updateIPTables ''linux'' sample_ParseAddrPort (\<lambda>i b p d. None)
      (sample_Config\<lparr>DNS := sample_DNS\<lparr>DNS_Enable := False\<rparr>\<rparr>) sample_world =
     (Exit 2, sample_world\<lparr>calls :=
        [CleanupTProxyIPTables,
         Errorln ''[IPTABLES] setting iptables failed: %s'' [S ''DNS server must be enable'']]\<rparr>)
   \<and> updateIPTables ''linux'' sample_ParseAddrPort (\<lambda>i b p d. None)
      (sample_Config\<lparr>DNS := sample_DNS\<lparr>Listen := ''localhost''\<rparr>\<rparr>) sample_world =
     (Exit 2, sample_world\<lparr>calls :=
        [CleanupTProxyIPTables,
         Errorln ''[IPTABLES] setting iptables failed: %s'' [S ''DNS server must be correct'']]\<rparr>)
   \<and> updateIPTables ''linux'' sample_ParseAddrPort (\<lambda>i b p d. Some ''exit status 1'')
      sample_Config sample_world =
     (Exit 2, sample_world\<lparr>DefaultRoutingMark := 2158, calls :=
        [CleanupTProxyIPTables,
         SetTProxyIPTables ''lo'' [] 7893 1053 (Some ''exit status 1''),
         Errorln ''[IPTABLES] setting iptables failed: %s'' [S ''exit status 1'']]\<rparr>)"
  using
    updateIPTables_fatal [of "''linux''" sample_ParseAddrPort "\<lambda>i b p d. None"
      "sample_Config\<lparr>General := sample_General\<lparr>Tun := \<lparr>Tun_Enable = True, RedirectToTun = []\<rparr>\<rparr>\<rparr>"
      sample_world]
    updateIPTables_fatal [of "''linux''" sample_ParseAddrPort "\<lambda>i b p d. None"
      "sample_Config\<lparr>General := sample_General\<lparr>TProxyPort := 0\<rparr>\<rparr>" sample_world]
    updateIPTables_fatal [of "''linux''" sample_ParseAddrPort "\<lambda>i b p d. None"
      "sample_Config\<lparr>DNS := sample_DNS\<lparr>DNS_Enable := False\<rparr>\<rparr>" sample_world]
    updateIPTables_fatal [of "''linux''" sample_ParseAddrPort "\<lambda>i b p d. None"
      "sample_Config\<lparr>DNS := sample_DNS\<lparr>Listen := ''localhost''\<rparr>\<rparr>" sample_world]
    updateIPTables_fatal [of "''linux''" sample_ParseAddrPort "\<lambda>i b p d. Some ''exit status 1''"
      sample_Config sample_world]
  by (simp add: updateIPTables_def updateIPTables_body_def call_def Let_def
      sample_Config_def sample_General_def sample_DNS_def sample_world_def sample_ParseAddrPort_def)

subsection \<open>The provider phases\<close>

lemma filter_update_count:
  "i < length xs \<Longrightarrow>
   length (filter P (xs[i := y])) + (if P (xs ! i) then 1 else 0) =
   length (filter P xs) + (if P y then 1 else 0)"
proof (induction xs arbitrary: i)
  case Nil
  then show ?case by simp
next
  case (Cons x xs)
  show ?case
  proof (cases i)
    case 0
    then show ?thesis by simp
  next
    case (Suc j)
    with Cons.prems have "j < length xs" by simp
    from Cons.IH [OF this] Suc show ?thesis by simp
  qed
qed

lemma main_step_inv:
  assumes "pool_inv K s"
  shows "pool_inv K (main_step K ph s)"
  using assms
  by (auto simp add: pool_inv_def main_step_def holding_def unfinished_def
      split: main_pc.splits list.splits)

lemma go_step_inv:
  assumes "pool_inv K s"
  shows "pool_inv K (go_step ph i s)"
proof (cases "length (gos s) \<le> i")
  case True
  then show ?thesis using assms by (simp add: go_step_def)
next
  case False
  then have i: "i < length (gos s)" by simp
  obtain p pc where g: "gos s ! i = (p, pc)" by (cases "gos s ! i")
  note h = filter_update_count [OF i, of "\<lambda>g. snd g = Task \<or> snd g = Recv"]
  note u = filter_update_count [OF i, of "\<lambda>g. snd g \<noteq> Finished"]
  show ?thesis
  proof (cases pc)
    case Task
    with assms i g h [of "(p, Recv)"] u [of "(p, Recv)"] show ?thesis
      by (simp add: pool_inv_def go_step_def holding_def unfinished_def)
  next
    case Recv
    with assms i g h [of "(p, Done)"] u [of "(p, Done)"] show ?thesis
      by (auto simp add: pool_inv_def go_step_def holding_def unfinished_def)
  next
    case Done
    with assms i g h [of "(p, Finished)"] u [of "(p, Finished)"] show ?thesis
      by (auto simp add: pool_inv_def go_step_def holding_def unfinished_def split: main_pc.splits)
  next
    case Finished
    with assms i g show ?thesis by (simp add: go_step_def)
  qed
qed

lemma step_inv: "pool_inv K s \<Longrightarrow> pool_inv K (step K ph t s)"
  by (cases t) (simp_all add: step_def main_step_inv go_step_inv)

lemma run_inv: "pool_inv K s \<Longrightarrow> pool_inv K (run K ph sched s)"
  unfolding run_def by (induction sched arbitrary: s) (simp_all add: step_inv)

lemma start_inv: "pool_inv K (start ps w)"
  by (simp add: pool_inv_def start_def holding_def unfinished_def)

lemma in_flight_le_holding: "in_flight s \<le> holding s"
proof -
  have "length (filter (\<lambda>g. snd g = Task) xs) \<le> length (filter (\<lambda>g. snd g = Task \<or> snd g = Recv) xs)"
    for xs :: "(Provider \<times> go_pc) list"
    by (induction xs) auto
  then show ?thesis by (simp add: in_flight_def holding_def)
qed

lemma in_flight_bound: "in_flight (run K ph sched (start ps w)) \<le> K"
proof -
  have "pool_inv K (run K ph sched (start ps w))" by (rule run_inv [OF start_inv])
  then show ?thesis
    using in_flight_le_holding [of "run K ph sched (start ps w)"] by (simp add: pool_inv_def)
qed

lemma unfinished_0_nth:
  "unfinished s = 0 \<Longrightarrow> i < length (gos s) \<Longrightarrow> snd (gos s ! i) = Finished"
proof -
  assume "unfinished s = 0" and i: "i < length (gos s)"
  then have "filter (\<lambda>g. snd g \<noteq> Finished) (gos s) = []" by (simp add: unfinished_def)
  then have "\<forall>g \<in> set (gos s). snd g = Finished" by (simp add: filter_empty_conv)
  with i show ?thesis by simp
qed

lemma main_step_barrier:
  assumes "waits ph" "pool_inv K s" "barrier_inv s"
  shows "barrier_inv (main_step K ph s)"
  using assms
  by (auto simp add: barrier_inv_def pool_inv_def main_step_def unfinished_def
      split: main_pc.splits list.splits)

lemma go_step_barrier:
  assumes "barrier_inv s"
  shows "barrier_inv (go_step ph i s)"
proof (cases "main s = Returned")
  case True
  with assms have u: "unfinished s = 0" by (simp add: barrier_inv_def)
  have "go_step ph i s = s"
  proof (cases "length (gos s) \<le> i")
    case True
    then show ?thesis by (simp add: go_step_def)
  next
    case False
    then have "snd (gos s ! i) = Finished" using unfinished_0_nth [OF u] by simp
    then show ?thesis by (cases "gos s ! i") (simp add: go_step_def)
  qed
  with assms show ?thesis by simp
next
  case False
  then show ?thesis using assms
    by (auto simp add: barrier_inv_def go_step_def split: prod.splits go_pc.splits)
qed

lemma step_barrier:
  "waits ph \<Longrightarrow> pool_inv K s \<Longrightarrow> barrier_inv s \<Longrightarrow> barrier_inv (step K ph t s)"
  by (cases t) (simp_all add: step_def main_step_barrier go_step_barrier)

lemma run_barrier:
  "waits ph \<Longrightarrow> pool_inv K s \<Longrightarrow> barrier_inv s \<Longrightarrow> barrier_inv (run K ph sched s)"
  unfolding run_def
  by (induction sched arbitrary: s) (simp_all add: step_barrier step_inv)

lemma start_barrier: "barrier_inv (start ps w)"
  by (simp add: barrier_inv_def start_def)

lemma barrier:
  assumes "waits ph" and "main (run K ph sched (start ps w)) = Returned"
  shows "\<forall>g \<in> set (gos (run K ph sched (start ps w))). snd g = Finished"
proof -
  have "barrier_inv (run K ph sched (start ps w))"
    using assms(1) start_inv start_barrier by (rule run_barrier)
  with assms(2) have "unfinished (run K ph sched (start ps w)) = 0"
    by (simp add: barrier_inv_def)
  then show ?thesis by (simp add: unfinished_def filter_empty_conv)
qed

lemma main_step_launched:
  "launched_inv ph ps s \<Longrightarrow> launched_inv ph ps (main_step K ph s)"
  by (auto simp add: launched_inv_def pending_def main_step_def split: main_pc.splits list.splits)

lemma map_fst_update:
  "i < length xs \<Longrightarrow> xs ! i = (p, pc) \<Longrightarrow> map fst (xs[i := (p, pc')]) = map fst xs"
  by (simp add: map_update list_update_same_conv)

lemma go_step_launched:
  assumes "launched_inv ph ps s"
  shows "launched_inv ph ps (go_step ph i s)"
proof (cases "length (gos s) \<le> i")
  case True
  then show ?thesis using assms by (simp add: go_step_def)
next
  case False
  then have i: "i < length (gos s)" by simp
  obtain p pc where g: "gos s ! i = (p, pc)" by (cases "gos s ! i")
  show ?thesis using assms i g map_fst_update [OF i g]
    by (cases pc) (simp_all add: launched_inv_def pending_def go_step_def)
qed

lemma run_launched:
  "launched_inv ph ps s \<Longrightarrow> launched_inv ph ps (run K ph sched s)"
  unfolding run_def
proof (induction sched arbitrary: s)
  case Nil
  then show ?case by simp
next
  case (Cons t sched)
  have "launched_inv ph ps (step K ph t s)"
    using Cons.prems by (cases t) (simp_all add: step_def main_step_launched go_step_launched)
  then show ?case using Cons.IH by simp
qed

lemma start_launched: "launched_inv ph ps (start ps w)"
  by (simp add: launched_inv_def pending_def start_def)


lemma Initial_names_Nil [simp]: "Initial_names [] = []"
  by (simp add: Initial_names_def)
















lemma managed_phases_barrier:
  assumes "ph = loadProxyProvider \<or> ph = loadRuleProvider"
    and "main (run K ph sched (start ps w)) = Returned"
  shows "in_flight (run K ph sched (start ps w)) = 0 \<and>
    map fst (gos (run K ph sched (start ps w))) = ps"
proof -
  let ?s = "run K ph sched (start ps w)"
  from assms(1) have w: "waits ph" and g: "guard ph = (\<lambda>p. True)"
    by (auto simp add: loadProxyProvider_def loadRuleProvider_def)
  have fin: "\<forall>g \<in> set (gos ?s). snd g = Finished"
    using w assms(2) by (rule barrier)
  then have "filter (\<lambda>g. snd g = Task) (gos ?s) = []"
    by (auto simp add: filter_empty_conv)
  then have a: "in_flight ?s = 0" by (simp add: in_flight_def)
  have "barrier_inv ?s" using w start_inv start_barrier by (rule run_barrier)
  with assms(2) have t: "todo ?s = []" by (simp add: barrier_inv_def)
  have "launched_inv ph ps ?s" by (rule run_launched [OF start_launched])
  with assms(2) t g have "map fst (gos ?s) = ps"
    by (simp add: launched_inv_def pending_def)
  with a show ?thesis by simp
qed

text \<open>
  C2. Every phase keeps at most \<open>K\<close> tasks in flight (\<open>in_flight_bound\<close>), and
  a phase that ends with \<open>wg.Wait()\<close>, as \<open>loadProxyProvider\<close> and
  \<open>loadRuleProvider\<close> do, returns only when every goroutine it started has
  finished (\<open>barrier\<close>, \<open>managed_phases_barrier\<close>). \<open>hcCompatibleProvider\<close>
  does not: with room in the
  channel and one Compatible provider, three steps of the caller take it through
  the loop and out of the function while the task it launched has not begun its
  \<open>Initial\<close> call.
\<close>

theorem hcCompatibleProvider_returns_early:
  assumes "0 < K" and "VehicleType p = Compatible"
  shows "main (run K hcCompatibleProvider [Main, Main, Main] (start [p] w)) = Returned \<and>
     gos (run K hcCompatibleProvider [Main, Main, Main] (start [p] w)) = [(p, Task)] \<and>
     in_flight (run K hcCompatibleProvider [Main, Main, Main] (start [p] w)) = 1 \<and>
     Initial_names (new_calls w (world (run K hcCompatibleProvider [Main, Main, Main] (start [p] w)))) = []"
  using assms
  by (simp add: run_def step_def main_step_def start_def hcCompatibleProvider_def in_flight_def
      call_def new_calls_def Initial_names_def)

theorem hcCompatibleProvider_returns_early_witness:
  "main (run 1 hcCompatibleProvider [Main, Main, Main] (start [sample_compatible] sample_world)) = Returned \<and>
   gos (run 1 hcCompatibleProvider [Main, Main, Main] (start [sample_compatible] sample_world)) =
     [(sample_compatible, Task)] \<and>
   in_flight (run 1 hcCompatibleProvider [Main, Main, Main] (start [sample_compatible] sample_world)) = 1"
  using hcCompatibleProvider_returns_early [of 1 sample_compatible sample_world]
  by (simp add: sample_compatible_def)



end
